theory Spec2Isabelle
  imports Complex_Main "HOL-Library.Multiset"
begin

section \<open>Values\<close>

text \<open>
  The pipeline of \<^verbatim>\<open>main.py\<close> moves a pandas DataFrame through \<^verbatim>\<open>clean_data\<close>,
  \<^verbatim>\<open>enrich_data\<close> and \<^verbatim>\<open>save_to_database\<close>. A cell of a frame is a scalar as the
  provider's JSON yields it: a text, a number or nothing. \<open>Missing\<close> stands for the
  values pandas treats as null (\<^verbatim>\<open>None\<close>, \<^verbatim>\<open>NaN\<close>, \<^verbatim>\<open>NaT\<close>). Finite numbers are exact
  rationals: every double is one, comparisons of doubles are exact, and the rounding of
  floating-point addition is outside this model.
\<close>

datatype cell = Missing | Num rat | Str string

text \<open>
  A Python float as \<^verbatim>\<open>categorize_amount\<close> sees it. The comparisons are the IEEE ones:
  every comparison with \<open>NaN\<close> is false.
\<close>

datatype pyfloat = Fin rat | PosInf | NegInf | NaN

fun flt_less :: "pyfloat \<Rightarrow> pyfloat \<Rightarrow> bool" where
  "flt_less NaN _ = False"
| "flt_less _ NaN = False"
| "flt_less (Fin a) (Fin b) = (a < b)"
| "flt_less (Fin _) PosInf = True"
| "flt_less (Fin _) NegInf = False"
| "flt_less PosInf _ = False"
| "flt_less NegInf NegInf = False"
| "flt_less NegInf _ = True"

fun flt_le :: "pyfloat \<Rightarrow> pyfloat \<Rightarrow> bool" where
  "flt_le NaN _ = False"
| "flt_le _ NaN = False"
| "flt_le (Fin a) (Fin b) = (a \<le> b)"
| "flt_le (Fin _) PosInf = True"
| "flt_le (Fin _) NegInf = False"
| "flt_le PosInf PosInf = True"
| "flt_le PosInf _ = False"
| "flt_le NegInf _ = True"

text \<open>The argument of \<^verbatim>\<open>categorize_amount\<close>: any Python scalar.\<close>

datatype pyval = PyNone | PyStr string | PyFloat pyfloat

datatype error = ValueError | TypeError | KeyError

text \<open>
  Python's \<^verbatim>\<open>float(x)\<close>: a float is itself, \<^verbatim>\<open>None\<close> raises TypeError, a text is read
  by Python's float syntax, here the parameter \<open>parse_float\<close>, and raises ValueError where
  that fails.
\<close>

definition py_float :: "(string \<Rightarrow> pyfloat option) \<Rightarrow> pyval \<Rightarrow> error + pyfloat" where
  "py_float parse_float x =
     (case x of
        PyNone \<Rightarrow> Inl TypeError
      | PyFloat f \<Rightarrow> Inr f
      | PyStr s \<Rightarrow> (case parse_float s of None \<Rightarrow> Inl ValueError | Some f \<Rightarrow> Inr f))"

text \<open>
  \<^verbatim>\<open>categorize_amount\<close>, the function nested in \<^verbatim>\<open>enrich_data\<close> (lines 97 to 107). The
  \<^verbatim>\<open>try\<close> block raises only what \<^verbatim>\<open>float()\<close> raises, a ValueError or a TypeError, and
  the \<^verbatim>\<open>except\<close> clause catches both.
\<close>

definition categorize_amount :: "(string \<Rightarrow> pyfloat option) \<Rightarrow> pyval \<Rightarrow> string" where
  "categorize_amount parse_float amount =
     (case py_float parse_float amount of
        Inr a \<Rightarrow>
          (if flt_less a (Fin 50) then ''low''
           else if flt_le a (Fin 200) then ''medium''
           else ''high'')
      | Inl e \<Rightarrow> ''unknown'')"

section \<open>Frames\<close>

text \<open>
  A DataFrame: its column labels and its rows, each row holding one cell per column, in
  column order. A read beyond a row's end gives \<open>Missing\<close>, as pandas fills a field the
  provider left out of a record.
\<close>

type_synonym row = "cell list"

record frame =
  columns :: "string list"
  rows :: "row list"

fun col_pos :: "string \<Rightarrow> string list \<Rightarrow> nat option" where
  "col_pos c [] = None"
| "col_pos c (x # xs) = (if x = c then Some 0 else map_option Suc (col_pos c xs))"

definition cell_at :: "nat \<Rightarrow> row \<Rightarrow> cell" where
  "cell_at i r = (if i < length r then r ! i else Missing)"

definition column_values :: "nat \<Rightarrow> row list \<Rightarrow> cell list" where
  "column_values i rs = map (cell_at i) rs"

text \<open>\<^verbatim>\<open>df.empty\<close>: some axis has length 0.\<close>

definition df_empty :: "frame \<Rightarrow> bool" where
  "df_empty df = (columns df = [] \<or> rows df = [])"

text \<open>\<^verbatim>\<open>dropna(subset=[c])\<close> on the column at position \<open>i\<close>.\<close>

definition dropna :: "nat \<Rightarrow> row list \<Rightarrow> row list" where
  "dropna i rs = filter (\<lambda>r. cell_at i r \<noteq> Missing) rs"

text \<open>
  \<^verbatim>\<open>drop_duplicates()\<close> keeps the first of the rows that are equal on all fields;
  \<open>drop_seen\<close> carries the rows already met, as the mask of \<^verbatim>\<open>duplicated()\<close> does.
\<close>

fun drop_seen :: "'a list \<Rightarrow> 'a list \<Rightarrow> 'a list" where
  "drop_seen seen [] = []"
| "drop_seen seen (x # xs) =
     (if x \<in> set seen then drop_seen seen xs else x # drop_seen (x # seen) xs)"

definition drop_duplicates :: "'a list \<Rightarrow> 'a list" where
  "drop_duplicates xs = drop_seen [] xs"

subsection \<open>Dates\<close>

text \<open>
  \<^verbatim>\<open>pd.to_datetime\<close> reads a whole column: a cell becomes a timestamp, or \<^verbatim>\<open>NaT\<close>, or
  the call raises. What it accepts depends on the pandas version and on the column (the
  format is inferred from it), so the reading of one cell in its column is the parameter
  \<open>parse_date :: cell list \<Rightarrow> cell \<Rightarrow> parsed\<close> of the model. \<^verbatim>\<open>strftime('%Y-%m-%d')\<close>
  is modelled in full; a pandas timestamp has a year between 1677 and 2262.
\<close>

record date =
  year :: nat
  month :: nat
  day :: nat

datatype parsed = Unparseable | NaT | Stamp date

definition digit_char :: "nat \<Rightarrow> char" where
  "digit_char n = ''0123456789'' ! (n mod 10)"

definition pad2 :: "nat \<Rightarrow> string" where
  "pad2 n = [digit_char (n div 10), digit_char n]"

definition pad4 :: "nat \<Rightarrow> string" where
  "pad4 n = [digit_char (n div 1000), digit_char (n div 100), digit_char (n div 10), digit_char n]"

definition strftime_ymd :: "date \<Rightarrow> string" where
  "strftime_ymd d = pad4 (year d) @ ''-'' @ pad2 (month d) @ ''-'' @ pad2 (day d)"

definition formatted :: "parsed \<Rightarrow> cell" where
  "formatted p = (case p of Stamp d \<Rightarrow> Str (strftime_ymd d) | _ \<Rightarrow> Missing)"

text \<open>
  Lines 62 to 66: both assignments sit in one \<^verbatim>\<open>try\<close>; when \<^verbatim>\<open>to_datetime\<close> raises on
  any cell, nothing has been assigned and the column stays as it was.
\<close>

definition standardize_dates :: "(cell list \<Rightarrow> cell \<Rightarrow> parsed) \<Rightarrow> nat \<Rightarrow> row list \<Rightarrow> row list" where
  "standardize_dates parse_date i rs =
     (let col = column_values i rs in
      if list_ex (\<lambda>c. parse_date col c = Unparseable) col then rs
      else map (\<lambda>r. r[i := formatted (parse_date col (cell_at i r))]) rs)"

subsection \<open>Amounts\<close>

text \<open>
  \<^verbatim>\<open>pd.to_numeric(errors='coerce')\<close> on one cell; which texts read as numbers is the
  parameter \<open>parse_num\<close>.
\<close>

definition to_numeric :: "(string \<Rightarrow> rat option) \<Rightarrow> cell \<Rightarrow> cell" where
  "to_numeric parse_num c =
     (case c of
        Missing \<Rightarrow> Missing
      | Num q \<Rightarrow> Num q
      | Str s \<Rightarrow> (case parse_num s of None \<Rightarrow> Missing | Some q \<Rightarrow> Num q))"

definition coerce_column :: "(string \<Rightarrow> rat option) \<Rightarrow> nat \<Rightarrow> row list \<Rightarrow> row list" where
  "coerce_column parse_num j rs = map (\<lambda>r. r[j := to_numeric parse_num (cell_at j r)]) rs"

text \<open>The mask \<^verbatim>\<open>column >= 0\<close>: false on a missing value.\<close>

definition ge_zero :: "cell \<Rightarrow> bool" where
  "ge_zero c = (case c of Num q \<Rightarrow> 0 \<le> q | _ \<Rightarrow> False)"

section \<open>The Cleaner\<close>

text \<open>\<^verbatim>\<open>clean_data\<close> (lines 38 to 84); \<open>None\<close> is Python's \<^verbatim>\<open>None\<close>.\<close>

definition clean_dates :: "(cell list \<Rightarrow> cell \<Rightarrow> parsed) \<Rightarrow> string list \<Rightarrow> row list \<Rightarrow> row list" where
  "clean_dates parse_date cols rs =
     (case col_pos ''transaction_date'' cols of
        None \<Rightarrow> rs
      | Some i \<Rightarrow> standardize_dates parse_date i (dropna i rs))"

definition clean_amounts :: "(string \<Rightarrow> rat option) \<Rightarrow> string list \<Rightarrow> row list \<Rightarrow> row list" where
  "clean_amounts parse_num cols rs =
     (case col_pos ''transaction_amount'' cols of
        None \<Rightarrow> rs
      | Some j \<Rightarrow> filter (\<lambda>r. ge_zero (cell_at j r)) (coerce_column parse_num j rs))"

definition clean_data ::
  "(cell list \<Rightarrow> cell \<Rightarrow> parsed) \<Rightarrow> (string \<Rightarrow> rat option) \<Rightarrow> frame option \<Rightarrow> frame option" where
  "clean_data parse_date parse_num input =
     (case input of
        None \<Rightarrow> None
      | Some df \<Rightarrow>
          if df_empty df then None
          else Some \<lparr>columns = columns df,
                     rows = clean_amounts parse_num (columns df)
                              (drop_duplicates (clean_dates parse_date (columns df) (rows df)))\<rparr>)"

section \<open>The Enricher\<close>

text \<open>
  After \<^verbatim>\<open>to_numeric\<close> the amount column is a float column: \<^verbatim>\<open>apply\<close> hands each of
  its values to \<^verbatim>\<open>categorize_amount\<close> as a float, a missing one as \<^verbatim>\<open>NaN\<close>.
\<close>

definition float64_value :: "cell \<Rightarrow> pyval" where
  "float64_value c =
     (case c of Missing \<Rightarrow> PyFloat NaN | Num q \<Rightarrow> PyFloat (Fin q) | Str s \<Rightarrow> PyStr s)"

text \<open>Writing the cell at position \<open>i\<close> of a row; fields the row lacks are missing.\<close>

definition put :: "nat \<Rightarrow> cell \<Rightarrow> row \<Rightarrow> row" where
  "put i v r =
     (if i < length r then r[i := v] else r @ replicate (i - length r) Missing @ [v])"

text \<open>
  \<^verbatim>\<open>df[name] = values\<close>: an existing column is overwritten in place, a new one is
  appended as the last column.
\<close>

definition assign_column :: "string \<Rightarrow> (row \<Rightarrow> cell) \<Rightarrow> frame \<Rightarrow> frame" where
  "assign_column name f df =
     (case col_pos name (columns df) of
        Some i \<Rightarrow> \<lparr>columns = columns df, rows = map (\<lambda>r. put i (f r) r) (rows df)\<rparr>
      | None \<Rightarrow> \<lparr>columns = columns df @ [name],
                  rows = map (\<lambda>r. put (length (columns df)) (f r) r) (rows df)\<rparr>)"

text \<open>
  \<^verbatim>\<open>groupby('customer_id')['transaction_amount'].sum().reset_index()\<close>: one pair of key
  and total for each customer; rows with a missing key form no group, and the sum skips
  missing amounts. pandas orders the pairs by key; the left merge that reads them does
  not depend on their order, and they are listed here as the keys first appear.
\<close>

fun numbers :: "cell list \<Rightarrow> rat list" where
  "numbers [] = []"
| "numbers (Num q # cs) = q # numbers cs"
| "numbers (_ # cs) = numbers cs"

definition group_sum :: "nat \<Rightarrow> nat \<Rightarrow> row list \<Rightarrow> cell \<Rightarrow> rat" where
  "group_sum k j rs key =
     sum_list (numbers (column_values j (filter (\<lambda>r. cell_at k r = key) rs)))"

definition customer_totals :: "nat \<Rightarrow> nat \<Rightarrow> row list \<Rightarrow> (cell \<times> cell) list" where
  "customer_totals k j rs =
     map (\<lambda>key. (key, Num (group_sum k j rs key)))
       (drop_duplicates (filter (\<lambda>c. c \<noteq> Missing) (column_values k rs)))"

text \<open>
  \<^verbatim>\<open>merge(customer_totals, on='customer_id', how='left')\<close>: every row of the left frame
  is kept, in order, with the total of its key as a new last column, missing when no
  pair has its key. A column of the left frame that is already called
  \<^verbatim>\<open>total_customer_transactions\<close> gets the suffix \<^verbatim>\<open>_x\<close> and the new one \<^verbatim>\<open>_y\<close>.
\<close>

definition merge_totals :: "nat \<Rightarrow> (cell \<times> cell) list \<Rightarrow> frame \<Rightarrow> frame" where
  "merge_totals k totals df =
     \<lparr>columns =
        (if ''total_customer_transactions'' \<in> set (columns df)
         then map (\<lambda>c. if c = ''total_customer_transactions'' then c @ ''_x'' else c) (columns df)
              @ [''total_customer_transactions_y'']
         else columns df @ [''total_customer_transactions'']),
      rows = map (\<lambda>r. put (length (columns df))
                         (case map_of totals (cell_at k r) of None \<Rightarrow> Missing | Some t \<Rightarrow> t) r)
               (rows df)\<rparr>"

text \<open>
  \<^verbatim>\<open>enrich_data\<close> (lines 86 to 123). \<^verbatim>\<open>groupby\<close> raises KeyError on a frame without a
  \<^verbatim>\<open>customer_id\<close> column, and nothing catches it.
\<close>

definition amount_category_of :: "(string \<Rightarrow> pyfloat option) \<Rightarrow> nat \<Rightarrow> row \<Rightarrow> cell" where
  "amount_category_of parse_float j r =
     Str (categorize_amount parse_float (float64_value (cell_at j r)))"

definition enrich_data ::
  "(string \<Rightarrow> pyfloat option) \<Rightarrow> (string \<Rightarrow> rat option) \<Rightarrow> frame option \<Rightarrow> error + frame option" where
  "enrich_data parse_float parse_num input =
     (case input of
        None \<Rightarrow> Inr None
      | Some df \<Rightarrow>
          if df_empty df then Inr None
          else
            (case col_pos ''transaction_amount'' (columns df) of
               None \<Rightarrow> Inr (Some df)
             | Some j \<Rightarrow>
                 (let df1 = \<lparr>columns = columns df, rows = coerce_column parse_num j (rows df)\<rparr>;
                      df2 = assign_column ''amount_category'' (amount_category_of parse_float j) df1
                  in case col_pos ''customer_id'' (columns df2) of
                       None \<Rightarrow> Inl KeyError
                     | Some k \<Rightarrow>
                         Inr (Some (merge_totals k (customer_totals k j (rows df2)) df2)))))"

section \<open>Readers used at concrete inputs\<close>

text \<open>
  Instances of the parameters for the concrete runs below. \<open>read_int\<close> reads a decimal
  integer with an optional minus sign, which every numeric reader accepts, and nothing
  else; \<open>read_iso\<close> reads a text that already has the form \<^verbatim>\<open>YYYY-MM-DD\<close>.
\<close>

definition digit_of :: "char \<Rightarrow> nat option" where
  "digit_of c = map_of (zip ''0123456789'' [0, 1, 2, 3, 4, 5, 6, 7, 8, 9]) c"

fun read_digits :: "nat \<Rightarrow> string \<Rightarrow> nat option" where
  "read_digits acc [] = Some acc"
| "read_digits acc (c # cs) =
     (case digit_of c of None \<Rightarrow> None | Some d \<Rightarrow> read_digits (10 * acc + d) cs)"

definition read_nat :: "string \<Rightarrow> nat option" where
  "read_nat s = (if s = [] then None else read_digits 0 s)"

definition read_int :: "string \<Rightarrow> rat option" where
  "read_int s =
     (case s of
        [] \<Rightarrow> None
      | c # cs \<Rightarrow>
          if c = CHR ''-'' then map_option (\<lambda>n. - of_nat n) (read_nat cs)
          else map_option of_nat (read_nat s))"

definition read_float :: "string \<Rightarrow> pyfloat option" where
  "read_float s = map_option Fin (read_int s)"

definition read_iso :: "cell list \<Rightarrow> cell \<Rightarrow> parsed" where
  "read_iso col c =
     (case c of
        Str [y1, y2, y3, y4, d1, m1, m2, d2, a1, a2] \<Rightarrow>
          (if d1 = CHR ''-'' \<and> d2 = CHR ''-'' then
             (case (read_nat [y1, y2, y3, y4], read_nat [m1, m2], read_nat [a1, a2]) of
                (Some y, Some m, Some a) \<Rightarrow> Stamp \<lparr>year = y, month = m, day = a\<rparr>
              | _ \<Rightarrow> Unparseable)
           else Unparseable)
      | _ \<Rightarrow> Unparseable)"

section \<open>Notions used to state the properties\<close>









section \<open>The relational store\<close>

text \<open>
  The six tables of \<^verbatim>\<open>save_to_database\<close>, each as the list of its rows in insertion
  order. A generated key (\<^verbatim>\<open>transaction_type_id\<close>, \<^verbatim>\<open>spend_category_id\<close>,
  \<^verbatim>\<open>amount_category_id\<close>) is modelled by the position of the row in its table: rows
  are never deleted, so a position names one row for good.
\<close>

record fact =
  fact_customer_id :: string
  fact_product_id :: string
  fact_transaction_date :: string
  fact_transaction_amount :: pyfloat
  fact_transaction_type_id :: "nat option"
  fact_spend_category_id :: "nat option"
  fact_amount_category_id :: "nat option"

record store =
  customers :: "string list"
  products :: "(string \<times> string) list"
  transaction_types :: "string list"
  spend_categories :: "string list"
  amount_categories :: "(string \<times> rat \<times> rat) list"
  transactions :: "fact list"

datatype stmt =
    InsertCustomer string
  | InsertProduct string string
  | InsertTransactionType string
  | InsertSpendCategory string
  | InsertAmountCategory string rat rat
  | InsertTransaction string string string pyfloat string string string

text \<open>
  One statement on the tables. \<^verbatim>\<open>ON CONFLICT (key) DO NOTHING\<close> inserts the row unless
  a row with its key is there; the insert into \<^verbatim>\<open>transactions\<close> has no such clause and
  resolves its three references by sub-selects, which give \<^verbatim>\<open>NULL\<close> when no row has the
  name.
\<close>

fun apply_stmt :: "stmt \<Rightarrow> store \<Rightarrow> store" where
  "apply_stmt (InsertCustomer c) s =
     (if c \<in> set (customers s) then s else s\<lparr>customers := customers s @ [c]\<rparr>)"
| "apply_stmt (InsertProduct p cat) s =
     (if p \<in> set (map fst (products s)) then s else s\<lparr>products := products s @ [(p, cat)]\<rparr>)"
| "apply_stmt (InsertTransactionType n) s =
     (if n \<in> set (transaction_types s) then s
      else s\<lparr>transaction_types := transaction_types s @ [n]\<rparr>)"
| "apply_stmt (InsertSpendCategory n) s =
     (if n \<in> set (spend_categories s) then s
      else s\<lparr>spend_categories := spend_categories s @ [n]\<rparr>)"
| "apply_stmt (InsertAmountCategory n lo hi) s =
     (if n \<in> set (map fst (amount_categories s)) then s
      else s\<lparr>amount_categories := amount_categories s @ [(n, lo, hi)]\<rparr>)"
| "apply_stmt (InsertTransaction c p d a ty sp ac) s =
     s\<lparr>transactions := transactions s @
        [\<lparr>fact_customer_id = c, fact_product_id = p, fact_transaction_date = d,
          fact_transaction_amount = a,
          fact_transaction_type_id = col_pos ty (transaction_types s),
          fact_spend_category_id = col_pos sp (spend_categories s),
          fact_amount_category_id = col_pos ac (map fst (amount_categories s))\<rparr>]\<rparr>"

text \<open>
  The database as the program sees it: what is committed, how many connections are
  open, and the calls made so far. A call the database rejects (a constraint, a lost
  connection) raises; which calls do is the parameter \<open>fails\<close> of the model, so that
  every theorem holds whatever the schema's constraints are. \<open>Execute n\<close> is the
  \<open>n\<close>-th statement of a run. \<^verbatim>\<open>close\<close> does not raise.
\<close>

datatype db_call = Connect | Execute nat | Commit | Rollback

datatype event = Connected | Executed stmt | Rejected | Committed | RolledBack | Closed

record database =
  persisted :: store
  open_connections :: nat
  history :: "event list"

text \<open>An open connection: the database and the tables as its transaction sees them.\<close>

record connection =
  db :: database
  working :: store

definition logged :: "event \<Rightarrow> database \<Rightarrow> database" where
  "logged e d = d\<lparr>history := history d @ [e]\<rparr>"

definition connect :: "database \<Rightarrow> connection" where
  "connect d =
     \<lparr>db = logged Connected (d\<lparr>open_connections := Suc (open_connections d)\<rparr>),
      working = persisted d\<rparr>"

definition execute :: "stmt \<Rightarrow> connection \<Rightarrow> connection" where
  "execute q c = \<lparr>db = logged (Executed q) (db c), working = apply_stmt q (working c)\<rparr>"

definition commit :: "connection \<Rightarrow> connection" where
  "commit c = c\<lparr>db := logged Committed ((db c)\<lparr>persisted := working c\<rparr>)\<rparr>"

definition rollback :: "connection \<Rightarrow> connection" where
  "rollback c = \<lparr>db = logged RolledBack (db c), working = persisted (db c)\<rparr>"

text \<open>Closing gives the database back; work that was not committed is lost.\<close>

definition close :: "connection \<Rightarrow> database" where
  "close c = logged Closed ((db c)\<lparr>open_connections := open_connections (db c) - 1\<rparr>)"

text \<open>
  \<^verbatim>\<open>execute_batch\<close> and the loop of \<^verbatim>\<open>cur.execute\<close>: the statements in order, until one
  is rejected. The result says whether all were executed.
\<close>

fun execute_all :: "(db_call \<Rightarrow> bool) \<Rightarrow> nat \<Rightarrow> stmt list \<Rightarrow> connection \<Rightarrow> bool \<times> connection" where
  "execute_all fails n [] c = (True, c)"
| "execute_all fails n (q # qs) c =
     (if fails (Execute n) then (False, c\<lparr>db := logged Rejected (db c)\<rparr>)
      else execute_all fails (Suc n) qs (execute q c))"

section \<open>The Writer\<close>

text \<open>
  A record of the batch after \<^verbatim>\<open>astype\<close> (lines 160 to 169): seven texts and a float.
  \<^verbatim>\<open>astype(str)\<close> leaves a text as it is and prints any other cell (\<^verbatim>\<open>'nan'\<close>, \<^verbatim>\<open>'5.0'\<close>);
  how is the parameter \<open>text_of\<close>. \<^verbatim>\<open>astype(float)\<close> reads a text as \<^verbatim>\<open>float()\<close> does and
  raises ValueError where that fails. A column that is not in the frame raises KeyError.
\<close>

record enriched_row =
  customer_id :: string
  product_id :: string
  product_category :: string
  transaction_date :: string
  transaction_amount :: pyfloat
  transaction_type :: string
  spend_category :: string
  amount_category :: string

definition as_str :: "(cell \<Rightarrow> string) \<Rightarrow> cell \<Rightarrow> string" where
  "as_str text_of c = (case c of Str s \<Rightarrow> s | _ \<Rightarrow> text_of c)"

definition typed_row ::
  "(cell \<Rightarrow> string) \<Rightarrow> (string \<Rightarrow> pyfloat option) \<Rightarrow> nat list \<Rightarrow> row \<Rightarrow> error + enriched_row" where
  "typed_row text_of parse_float ps r =
     (case ps of
        [c, p, pc, d, a, ty, sp, ac] \<Rightarrow>
          (case py_float parse_float (float64_value (cell_at a r)) of
             Inl e \<Rightarrow> Inl e
           | Inr x \<Rightarrow>
               Inr \<lparr>customer_id = as_str text_of (cell_at c r),
                    product_id = as_str text_of (cell_at p r),
                    product_category = as_str text_of (cell_at pc r),
                    transaction_date = as_str text_of (cell_at d r),
                    transaction_amount = x,
                    transaction_type = as_str text_of (cell_at ty r),
                    spend_category = as_str text_of (cell_at sp r),
                    amount_category = as_str text_of (cell_at ac r)\<rparr>)
      | _ \<Rightarrow> Inl KeyError)"

fun collect :: "('a \<Rightarrow> error + 'b) \<Rightarrow> 'a list \<Rightarrow> error + 'b list" where
  "collect f [] = Inr []"
| "collect f (x # xs) =
     (case f x of
        Inl e \<Rightarrow> Inl e
      | Inr y \<Rightarrow> (case collect f xs of Inl e \<Rightarrow> Inl e | Inr ys \<Rightarrow> Inr (y # ys)))"

definition positions :: "string list \<Rightarrow> string list \<Rightarrow> error + nat list" where
  "positions names cols =
     collect (\<lambda>n. case col_pos n cols of None \<Rightarrow> Inl KeyError | Some i \<Rightarrow> Inr i) names"

definition astype ::
  "(cell \<Rightarrow> string) \<Rightarrow> (string \<Rightarrow> pyfloat option) \<Rightarrow> frame \<Rightarrow> error + enriched_row list" where
  "astype text_of parse_float df =
     (case positions [''customer_id'', ''product_id'', ''product_category'', ''transaction_date'',
                      ''transaction_amount'', ''transaction_type'', ''spend_category'',
                      ''amount_category''] (columns df) of
        Inl e \<Rightarrow> Inl e
      | Inr ps \<Rightarrow> collect (typed_row text_of parse_float ps) (rows df))"

text \<open>
  The statements of one write, in the order of lines 176 to 254: the distinct customers,
  the distinct pairs of product and category, the distinct transaction types, the
  distinct spend categories, the three fixed bands, and one fact for each record.
\<close>

definition fact_stmt :: "enriched_row \<Rightarrow> stmt" where
  "fact_stmt r =
     InsertTransaction (customer_id r) (product_id r) (transaction_date r)
       (transaction_amount r) (transaction_type r) (spend_category r) (amount_category r)"

definition lookup_stmts :: "enriched_row list \<Rightarrow> stmt list" where
  "lookup_stmts rs =
     map InsertCustomer (drop_duplicates (map customer_id rs))
     @ map (\<lambda>(p, c). InsertProduct p c)
         (drop_duplicates (map (\<lambda>r. (product_id r, product_category r)) rs))
     @ map InsertTransactionType (drop_duplicates (map transaction_type rs))
     @ map InsertSpendCategory (drop_duplicates (map spend_category rs))
     @ [InsertAmountCategory ''low'' 0 50, InsertAmountCategory ''medium'' 50 200,
        InsertAmountCategory ''high'' 200 (99999999 / 100)]"

definition statements :: "enriched_row list \<Rightarrow> stmt list" where
  "statements rs = lookup_stmts rs @ map fact_stmt rs"

text \<open>
  \<^verbatim>\<open>save_to_database\<close> (lines 156 to 280). \<open>Returned\<close>: the function returns, also after
  the \<^verbatim>\<open>except\<close> branch has handled a failure; \<open>Raised\<close>: an exception leaves it, which
  only a failing \<^verbatim>\<open>rollback\<close> inside the handler causes. While \<^verbatim>\<open>conn\<close> is still
  \<^verbatim>\<open>None\<close> (a failure in \<^verbatim>\<open>astype\<close> or in \<^verbatim>\<open>get_db_connection\<close>) the handler and the
  \<^verbatim>\<open>finally\<close> block touch no connection.
\<close>

datatype outcome = Returned | Raised

definition handle_failure :: "(db_call \<Rightarrow> bool) \<Rightarrow> connection \<Rightarrow> outcome \<times> database" where
  "handle_failure fails c =
     (if fails Rollback then (Raised, close (c\<lparr>db := logged Rejected (db c)\<rparr>))
      else (Returned, close (rollback c)))"

definition save_to_database ::
  "(cell \<Rightarrow> string) \<Rightarrow> (string \<Rightarrow> pyfloat option) \<Rightarrow> (db_call \<Rightarrow> bool) \<Rightarrow> frame \<Rightarrow> database
     \<Rightarrow> outcome \<times> database" where
  "save_to_database text_of parse_float fails enriched_df d =
     (case astype text_of parse_float enriched_df of
        Inl e \<Rightarrow> (Returned, d)
      | Inr rs \<Rightarrow>
          if fails Connect then (Returned, logged Rejected d)
          else
            (case execute_all fails 0 (statements rs) (connect d) of
               (False, c) \<Rightarrow> handle_failure fails c
             | (True, c) \<Rightarrow>
                 if fails Commit then handle_failure fails (c\<lparr>db := logged Rejected (db c)\<rparr>)
                 else (Returned, close (commit c))))"

section \<open>The pipeline\<close>

text \<open>
  \<^verbatim>\<open>main\<close> (lines 283 to 308). It first opens a connection as a test, and never closes
  it; \<^verbatim>\<open>psycopg2.connect\<close> raises when it fails, and \<^verbatim>\<open>main\<close> catches nothing.
  \<open>fetched\<close> is what \<^verbatim>\<open>get_transaction_data\<close> returned: \<open>None\<close> after any error of the
  request. \<^verbatim>\<open>display_data\<close> only prints.
\<close>

definition main ::
  "(cell list \<Rightarrow> cell \<Rightarrow> parsed) \<Rightarrow> (string \<Rightarrow> rat option) \<Rightarrow> (string \<Rightarrow> pyfloat option)
     \<Rightarrow> (cell \<Rightarrow> string) \<Rightarrow> bool \<Rightarrow> (db_call \<Rightarrow> bool) \<Rightarrow> frame option \<Rightarrow> database
     \<Rightarrow> outcome \<times> database" where
  "main parse_date parse_num parse_float text_of test_fails fails fetched d =
     (if test_fails then (Raised, logged Rejected d)
      else
        (let d0 = db (connect d) in
         case fetched of
           None \<Rightarrow> (Returned, d0)
         | Some raw_df \<Rightarrow>
             (case clean_data parse_date parse_num (Some raw_df) of
                None \<Rightarrow> (Returned, d0)
              | Some cleaned_df \<Rightarrow>
                  (case enrich_data parse_float parse_num (Some cleaned_df) of
                     Inl e \<Rightarrow> (Raised, d0)
                   | Inr None \<Rightarrow> (Returned, d0)
                   | Inr (Some enriched_df) \<Rightarrow>
                       save_to_database text_of parse_float fails enriched_df d0))))"

text \<open>Instances of the parameters for the concrete runs below.\<close>

definition nan_text :: "cell \<Rightarrow> string" where
  "nan_text c = ''nan''"

definition failing :: "db_call list \<Rightarrow> db_call \<Rightarrow> bool" where
  "failing bad call = (call \<in> set bad)"

definition empty_store :: store where
  "empty_store =
     \<lparr>customers = [], products = [], transaction_types = [], spend_categories = [],
      amount_categories = [], transactions = []\<rparr>"

definition fresh_database :: database where
  "fresh_database = \<lparr>persisted = empty_store, open_connections = 0, history = []\<rparr>"

definition sample_batch :: frame where
  "sample_batch =
     \<lparr>columns = [''customer_id'', ''product_id'', ''product_category'', ''transaction_date'',
                 ''transaction_amount'', ''transaction_type'', ''spend_category'',
                 ''amount_category'', ''total_customer_transactions''],
      rows = [[Str ''c1'', Str ''p1'', Str ''food'', Str ''2023-01-05'', Num 30, Str ''debit'',
               Str ''daily'', Str ''low'', Num 30]]\<rparr>"

section \<open>Frames as objects\<close>

text \<open>
  \<^verbatim>\<open>clean_data\<close> and \<^verbatim>\<open>enrich_data\<close> receive a reference to a DataFrame object and
  change frames in place (\<^verbatim>\<open>inplace=True\<close>, \<^verbatim>\<open>df[c] = ...\<close>). To say what they do to their
  argument, the frames live in a heap, a reference is a position in it, \<open>alloc\<close>
  creates an object and \<open>modify\<close> changes one where it is. The functions above give
  the values; the functions below place every step on the object the code applies it to.
\<close>

type_synonym heap = "frame list"

definition alloc :: "frame \<Rightarrow> heap \<Rightarrow> nat \<times> heap" where
  "alloc f h = (length h, h @ [f])"

definition modify :: "nat \<Rightarrow> (frame \<Rightarrow> frame) \<Rightarrow> heap \<Rightarrow> heap" where
  "modify a f h = h[a := f (h ! a)]"

definition on_rows :: "(string list \<Rightarrow> row list \<Rightarrow> row list) \<Rightarrow> frame \<Rightarrow> frame" where
  "on_rows f df = \<lparr>columns = columns df, rows = f (columns df) (rows df)\<rparr>"

text \<open>
  \<^verbatim>\<open>clean_data\<close>: \<^verbatim>\<open>df.copy()\<close> is a new object (line 47); \<^verbatim>\<open>dropna\<close>, the date
  assignments, \<^verbatim>\<open>drop_duplicates\<close> and the amount assignment change that copy in place
  (lines 58 to 75); the selection of line 77 is a new object again, bound to the same
  name and returned.
\<close>

definition clean_data_obj ::
  "(cell list \<Rightarrow> cell \<Rightarrow> parsed) \<Rightarrow> (string \<Rightarrow> rat option) \<Rightarrow> nat option \<Rightarrow> heap
     \<Rightarrow> nat option \<times> heap" where
  "clean_data_obj parse_date parse_num input h =
     (case input of
        None \<Rightarrow> (None, h)
      | Some a \<Rightarrow>
          if df_empty (h ! a) then (None, h)
          else
            (let (c, h1) = alloc (h ! a) h;
                 h2 = modify c (on_rows (clean_dates parse_date)) h1;
                 h3 = modify c (on_rows (\<lambda>cols. drop_duplicates)) h2
             in case col_pos ''transaction_amount'' (columns (h3 ! c)) of
                  None \<Rightarrow> (Some c, h3)
                | Some j \<Rightarrow>
                    (let h4 = modify c (on_rows (\<lambda>cols. coerce_column parse_num j)) h3;
                         (c', h5) =
                           alloc (on_rows (\<lambda>cols. filter (\<lambda>r. ge_zero (cell_at j r))) (h4 ! c)) h4
                     in (Some c', h5))))"

text \<open>
  \<^verbatim>\<open>enrich_data\<close>: the copy of line 91 is a new object; the two column assignments
  (lines 113 and 114) change it in place; the merge of line 120 is a new object. The
  frame \<^verbatim>\<open>customer_totals\<close> is read by the merge only and is kept as a value.
\<close>

definition enrich_data_obj ::
  "(string \<Rightarrow> pyfloat option) \<Rightarrow> (string \<Rightarrow> rat option) \<Rightarrow> nat option \<Rightarrow> heap
     \<Rightarrow> (error + nat option) \<times> heap" where
  "enrich_data_obj parse_float parse_num input h =
     (case input of
        None \<Rightarrow> (Inr None, h)
      | Some a \<Rightarrow>
          if df_empty (h ! a) then (Inr None, h)
          else
            (let (c, h1) = alloc (h ! a) h
             in case col_pos ''transaction_amount'' (columns (h1 ! c)) of
                  None \<Rightarrow> (Inr (Some c), h1)
                | Some j \<Rightarrow>
                    (let h2 = modify c (on_rows (\<lambda>cols. coerce_column parse_num j)) h1;
                         h3 = modify c (assign_column ''amount_category''
                                          (amount_category_of parse_float j)) h2
                     in case col_pos ''customer_id'' (columns (h3 ! c)) of
                          None \<Rightarrow> (Inl KeyError, h3)
                        | Some k \<Rightarrow>
                            (let (c', h4) =
                               alloc (merge_totals k (customer_totals k j (rows (h3 ! c))) (h3 ! c)) h3
                             in (Inr (Some c'), h4)))))"

text \<open>The frame a returned reference names.\<close>

definition deref :: "heap \<Rightarrow> nat option \<Rightarrow> frame option" where
  "deref h r = map_option (\<lambda>a. h ! a) r"

section \<open>Notions used to state the properties of the Writer and of the pipeline\<close>

text \<open>
  No call of a write of \<open>n\<close> statements is rejected; the tables after a list of
  statements; the events that neither open, commit nor close.
\<close>

definition all_succeed :: "(db_call \<Rightarrow> bool) \<Rightarrow> nat \<Rightarrow> bool" where
  "all_succeed fails n =
     (\<not> fails Connect \<and> \<not> fails Commit \<and> \<not> list_ex (\<lambda>m. fails (Execute m)) [0..<n])"

definition run_stmts :: "stmt list \<Rightarrow> store \<Rightarrow> store" where
  "run_stmts qs s = foldl (\<lambda>s q. apply_stmt q s) s qs"

definition quiet :: "event \<Rightarrow> bool" where
  "quiet e = (e \<noteq> Connected \<and> e \<noteq> Committed \<and> e \<noteq> Closed)"

text \<open>
  Every lookup table has one row for each natural key; the five lookup tables of a store;
  the fact row that the insert of one record makes on given lookup tables; the
  statements with a conflict clause, and whether the key of such a statement is in its
  table.
\<close>

definition keys_distinct :: "store \<Rightarrow> bool" where
  "keys_distinct s =
     (distinct (customers s) \<and> distinct (map fst (products s)) \<and> distinct (transaction_types s)
      \<and> distinct (spend_categories s) \<and> distinct (map fst (amount_categories s)))"

definition lookup_tables :: "store \<Rightarrow> store" where
  "lookup_tables s = s\<lparr>transactions := []\<rparr>"

definition fact_of :: "store \<Rightarrow> enriched_row \<Rightarrow> fact" where
  "fact_of s r =
     \<lparr>fact_customer_id = customer_id r, fact_product_id = product_id r,
      fact_transaction_date = transaction_date r,
      fact_transaction_amount = transaction_amount r,
      fact_transaction_type_id = col_pos (transaction_type r) (transaction_types s),
      fact_spend_category_id = col_pos (spend_category r) (spend_categories s),
      fact_amount_category_id = col_pos (amount_category r) (map fst (amount_categories s))\<rparr>"

fun is_lookup :: "stmt \<Rightarrow> bool" where
  "is_lookup (InsertTransaction c p d a ty sp ac) = False"
| "is_lookup _ = True"

fun present :: "stmt \<Rightarrow> store \<Rightarrow> bool" where
  "present (InsertCustomer c) s = (c \<in> set (customers s))"
| "present (InsertProduct p cat) s = (p \<in> set (map fst (products s)))"
| "present (InsertTransactionType n) s = (n \<in> set (transaction_types s))"
| "present (InsertSpendCategory n) s = (n \<in> set (spend_categories s))"
| "present (InsertAmountCategory n lo hi) s = (n \<in> set (map fst (amount_categories s)))"
| "present (InsertTransaction c p d a ty sp ac) s = False"

text \<open>
  Some stage of a run has nothing to work on: the fetch gave nothing, or an empty batch,
  or the Cleaner left an empty batch.
\<close>

definition no_data ::
  "(cell list \<Rightarrow> cell \<Rightarrow> parsed) \<Rightarrow> (string \<Rightarrow> rat option) \<Rightarrow> frame option \<Rightarrow> bool" where
  "no_data parse_date parse_num fetched =
     (case fetched of
        None \<Rightarrow> True
      | Some raw_df \<Rightarrow>
          df_empty raw_df
          \<or> (case clean_data parse_date parse_num (Some raw_df) of
                None \<Rightarrow> False
              | Some cleaned_df \<Rightarrow> df_empty cleaned_df))"

section \<open>Properties of the amount category\<close>

lemma py_float_raises:
  "py_float parse_float x = Inl e \<Longrightarrow> e = ValueError \<or> e = TypeError"
  by (auto simp: py_float_def split: pyval.splits option.splits)

lemma categorize_amount_float:
  "categorize_amount parse_float (PyFloat f) =
     (if flt_less f (Fin 50) then ''low'' else if flt_le f (Fin 200) then ''medium'' else ''high'')"
  by (simp add: categorize_amount_def py_float_def)

lemma categorize_amount_nan: "categorize_amount parse_float (PyFloat NaN) = ''high''"
  by (simp add: categorize_amount_float)

lemma categorize_amount_finite:
  "(categorize_amount parse_float (PyFloat (Fin a)) = ''low'') = (a < 50)"
  "(categorize_amount parse_float (PyFloat (Fin a)) = ''medium'') = (50 \<le> a \<and> a \<le> 200)"
  "(categorize_amount parse_float (PyFloat (Fin a)) = ''high'') = (200 < a)"
  by (auto simp add: categorize_amount_float)

lemma categorize_amount_unconvertible:
  "categorize_amount parse_float PyNone = ''unknown''"
  "parse_float s = None \<Longrightarrow> categorize_amount parse_float (PyStr s) = ''unknown''"
  by (simp_all add: categorize_amount_def py_float_def)

text \<open>
  C1. The thresholds are as the spec gives them for every finite amount
  (\<open>categorize_amount_finite\<close>), and a value \<^verbatim>\<open>float()\<close> cannot convert is
  \<^verbatim>\<open>unknown\<close> (\<open>categorize_amount_unconvertible\<close>). But \<^verbatim>\<open>enrich_data\<close> coerces the
  column before it applies the function, so an amount that is not a number reaches it
  as \<^verbatim>\<open>NaN\<close>, which \<^verbatim>\<open>float()\<close> accepts and both comparisons reject: the category
  of the amount \<^verbatim>\<open>'abc'\<close> is \<^verbatim>\<open>high\<close>, not \<^verbatim>\<open>unknown\<close>.
\<close>

theorem enrich_data_coerced_amount_is_high:
  "enrich_data read_float read_int
     (Some \<lparr>columns = [''customer_id'', ''transaction_amount''],
            rows = [[Str ''c1'', Str ''abc'']]\<rparr>)
   = Inr (Some \<lparr>columns = [''customer_id'', ''transaction_amount'', ''amount_category'',
                           ''total_customer_transactions''],
                rows = [[Str ''c1'', Missing, Str ''high'', Num 0]]\<rparr>)"
  by code_simp

section \<open>Properties of the frame operations\<close>







lemma col_pos_None: "(col_pos c cols = None) = (c \<notin> set cols)"
  by (induction cols) auto









section \<open>Properties of the Cleaner\<close>


















text \<open>
  C9. A batch without a \<^verbatim>\<open>transaction_amount\<close> column is returned by \<^verbatim>\<open>enrich_data\<close> as
  it is, with no \<^verbatim>\<open>amount_category\<close> and no \<^verbatim>\<open>total_customer_transactions\<close> added, and
  \<^verbatim>\<open>clean_data\<close> applies the date step and the removal of duplicates only: no record is
  filtered for its amount.
\<close>

theorem no_amount_column:
  assumes "\<not> df_empty df" and "''transaction_amount'' \<notin> set (columns df)"
  shows "enrich_data parse_float parse_num (Some df) = Inr (Some df)
       \<and> clean_data parse_date parse_num (Some df) =
           Some \<lparr>columns = columns df,
                 rows = drop_duplicates (clean_dates parse_date (columns df) (rows df))\<rparr>"
proof -
  have "col_pos ''transaction_amount'' (columns df) = None"
    using assms(2) by (simp add: col_pos_None)
  then show ?thesis using assms(1)
    by (simp add: enrich_data_def clean_data_def clean_amounts_def)
qed


theorem no_amount_column_witness:
  "\<not> df_empty \<lparr>columns = [''customer_id'', ''transaction_date''],
                 rows = [[Str ''c1'', Str ''2023-01-05''], [Str ''c1'', Str ''2023-01-05'']]\<rparr>
   \<and> ''transaction_amount'' \<notin> set [''customer_id'', ''transaction_date'']
   \<and> enrich_data read_float read_int
        (Some \<lparr>columns = [''customer_id'', ''transaction_date''],
               rows = [[Str ''c1'', Str ''2023-01-05''], [Str ''c1'', Str ''2023-01-05'']]\<rparr>)
       = Inr (Some \<lparr>columns = [''customer_id'', ''transaction_date''],
               rows = [[Str ''c1'', Str ''2023-01-05''], [Str ''c1'', Str ''2023-01-05'']]\<rparr>)
   \<and> clean_data read_iso read_int
        (Some \<lparr>columns = [''customer_id'', ''transaction_date''],
               rows = [[Str ''c1'', Str ''2023-01-05''], [Str ''c1'', Str ''2023-01-05'']]\<rparr>)
       = Some \<lparr>columns = [''customer_id'', ''transaction_date''],
               rows = [[Str ''c1'', Str ''2023-01-05'']]\<rparr>"
proof -
  let ?df = "\<lparr>columns = [''customer_id'', ''transaction_date''],
                 rows = [[Str ''c1'', Str ''2023-01-05''], [Str ''c1'', Str ''2023-01-05'']]\<rparr>"
  have h1: "\<not> df_empty ?df" by (simp add: df_empty_def)
  have h2: "''transaction_amount'' \<notin> set (columns ?df)" by simp
  have e: "drop_duplicates (clean_dates read_iso (columns ?df) (rows ?df)) = [[Str ''c1'', Str ''2023-01-05'']]"
    by code_simp
  from no_amount_column[OF h1 h2, of read_float read_int read_iso] e h1 h2
  show ?thesis by simp
qed

section \<open>Properties of the Enricher\<close>


















section \<open>Properties of the frames as objects\<close>

lemma modify_new: "modify (length h) f (h @ [x]) = h @ [f x]"
  by (simp add: modify_def)

lemma clean_data_obj_result:
  "clean_data_obj parse_date parse_num (Some a) h =
     (case clean_data parse_date parse_num (Some (h ! a)) of
        None \<Rightarrow> (None, h)
      | Some out \<Rightarrow>
          (case col_pos ''transaction_amount'' (columns (h ! a)) of
             None \<Rightarrow> (Some (length h), h @ [out])
           | Some j \<Rightarrow>
               (Some (Suc (length h)),
                h @ [\<lparr>columns = columns (h ! a),
                       rows = coerce_column parse_num j
                                (drop_duplicates (clean_dates parse_date (columns (h ! a)) (rows (h ! a))))\<rparr>,
                     out])))"
  by (simp add: clean_data_obj_def clean_data_def alloc_def modify_new on_rows_def
      clean_amounts_def Let_def split: option.splits)

lemma enrich_data_obj_result:
  "\<exists>tmp. enrich_data_obj parse_float parse_num (Some a) h =
     (case enrich_data parse_float parse_num (Some (h ! a)) of
        Inl e \<Rightarrow> (Inl e, h @ tmp)
      | Inr None \<Rightarrow> (Inr None, h)
      | Inr (Some out) \<Rightarrow> (Inr (Some (length (h @ tmp))), h @ tmp @ [out]))"
proof (cases "df_empty (h ! a)")
  case True
  then show ?thesis by (simp add: enrich_data_obj_def enrich_data_def)
next
  case ne: False
  show ?thesis
  proof (cases "col_pos ''transaction_amount'' (columns (h ! a))")
    case None
    then show ?thesis using ne
      by (intro exI[of _ "[]"]) (simp add: enrich_data_obj_def enrich_data_def alloc_def)
  next
    case (Some j)
    let ?df2 = "assign_column ''amount_category'' (amount_category_of parse_float j)
                  \<lparr>columns = columns (h ! a), rows = coerce_column parse_num j (rows (h ! a))\<rparr>"
    show ?thesis using ne Some
      by (intro exI[of _ "[?df2]"])
         (simp add: enrich_data_obj_def enrich_data_def alloc_def modify_new on_rows_def Let_def
            split: option.splits)
  qed
qed


text \<open>
  C10. For a valid reference \<open>a\<close>, after \<^verbatim>\<open>clean_data\<close> and after \<^verbatim>\<open>enrich_data\<close> every
  object that existed before the call is as it was, the argument among them; the calls
  only create objects. The frame returned is a new object (its reference lies beyond
  the old heap), and it holds the value the functions of the sections above compute.
\<close>

theorem input_frames_unchanged:
  assumes "a < length h"
  shows "take (length h) (snd (clean_data_obj parse_date parse_num (Some a) h)) = h
       \<and> snd (clean_data_obj parse_date parse_num (Some a) h) ! a = h ! a
       \<and> deref (snd (clean_data_obj parse_date parse_num (Some a) h))
            (fst (clean_data_obj parse_date parse_num (Some a) h))
          = clean_data parse_date parse_num (Some (h ! a))
       \<and> (\<forall>r. fst (clean_data_obj parse_date parse_num (Some a) h) = Some r \<longrightarrow> length h \<le> r)
       \<and> take (length h) (snd (enrich_data_obj parse_float parse_num (Some a) h)) = h
       \<and> snd (enrich_data_obj parse_float parse_num (Some a) h) ! a = h ! a
       \<and> map_sum id (deref (snd (enrich_data_obj parse_float parse_num (Some a) h)))
            (fst (enrich_data_obj parse_float parse_num (Some a) h))
          = enrich_data parse_float parse_num (Some (h ! a))
       \<and> (\<forall>r. fst (enrich_data_obj parse_float parse_num (Some a) h) = Inr (Some r) \<longrightarrow> length h \<le> r)"
proof -
  have C: "take (length h) (snd (clean_data_obj parse_date parse_num (Some a) h)) = h
       \<and> snd (clean_data_obj parse_date parse_num (Some a) h) ! a = h ! a
       \<and> deref (snd (clean_data_obj parse_date parse_num (Some a) h))
            (fst (clean_data_obj parse_date parse_num (Some a) h))
          = clean_data parse_date parse_num (Some (h ! a))
       \<and> (\<forall>r. fst (clean_data_obj parse_date parse_num (Some a) h) = Some r \<longrightarrow> length h \<le> r)"
    unfolding clean_data_obj_result using assms
    by (auto simp: deref_def nth_append split: option.splits)
  obtain tmp where E: "enrich_data_obj parse_float parse_num (Some a) h =
     (case enrich_data parse_float parse_num (Some (h ! a)) of
        Inl e \<Rightarrow> (Inl e, h @ tmp)
      | Inr None \<Rightarrow> (Inr None, h)
      | Inr (Some out) \<Rightarrow> (Inr (Some (length (h @ tmp))), h @ tmp @ [out]))"
    using enrich_data_obj_result by blast
  have D: "take (length h) (snd (enrich_data_obj parse_float parse_num (Some a) h)) = h
       \<and> snd (enrich_data_obj parse_float parse_num (Some a) h) ! a = h ! a
       \<and> map_sum id (deref (snd (enrich_data_obj parse_float parse_num (Some a) h)))
            (fst (enrich_data_obj parse_float parse_num (Some a) h))
          = enrich_data parse_float parse_num (Some (h ! a))
       \<and> (\<forall>r. fst (enrich_data_obj parse_float parse_num (Some a) h) = Inr (Some r) \<longrightarrow> length h \<le> r)"
    unfolding E using assms
    by (auto simp: deref_def nth_append split: option.splits sum.splits)
  show ?thesis using C D by blast
qed

theorem input_frames_unchanged_witness:
  "(0::nat) < length [\<lparr>columns = [''customer_id'', ''transaction_amount''],
                       rows = [[Str ''c1'', Str ''7''], [Str ''c1'', Num (-1)]]\<rparr>]
   \<and> clean_data_obj read_iso read_int (Some 0)
        [\<lparr>columns = [''customer_id'', ''transaction_amount''],
          rows = [[Str ''c1'', Str ''7''], [Str ''c1'', Num (-1)]]\<rparr>]
      = (Some 2,
         [\<lparr>columns = [''customer_id'', ''transaction_amount''],
           rows = [[Str ''c1'', Str ''7''], [Str ''c1'', Num (-1)]]\<rparr>,
          \<lparr>columns = [''customer_id'', ''transaction_amount''],
           rows = [[Str ''c1'', Num 7], [Str ''c1'', Num (-1)]]\<rparr>,
          \<lparr>columns = [''customer_id'', ''transaction_amount''],
           rows = [[Str ''c1'', Num 7]]\<rparr>])
   \<and> snd (clean_data_obj read_iso read_int (Some 0)
        [\<lparr>columns = [''customer_id'', ''transaction_amount''],
          rows = [[Str ''c1'', Str ''7''], [Str ''c1'', Num (-1)]]\<rparr>]) ! 0
      = \<lparr>columns = [''customer_id'', ''transaction_amount''],
          rows = [[Str ''c1'', Str ''7''], [Str ''c1'', Num (-1)]]\<rparr>
   \<and> snd (enrich_data_obj read_float read_int (Some 0)
        [\<lparr>columns = [''customer_id'', ''transaction_amount''],
          rows = [[Str ''c1'', Str ''7''], [Str ''c1'', Num (-1)]]\<rparr>]) ! 0
      = \<lparr>columns = [''customer_id'', ''transaction_amount''],
          rows = [[Str ''c1'', Str ''7''], [Str ''c1'', Num (-1)]]\<rparr>"
proof -
  let ?df = "\<lparr>columns = [''customer_id'', ''transaction_amount''],
          rows = [[Str ''c1'', Str ''7''], [Str ''c1'', Num (-1)]]\<rparr>"
  have h: "(0::nat) < length [?df]" by simp
  have e: "clean_data_obj read_iso read_int (Some 0) [?df]
      = (Some 2,
         [?df,
          \<lparr>columns = [''customer_id'', ''transaction_amount''],
           rows = [[Str ''c1'', Num 7], [Str ''c1'', Num (-1)]]\<rparr>,
          \<lparr>columns = [''customer_id'', ''transaction_amount''],
           rows = [[Str ''c1'', Num 7]]\<rparr>])"
    by code_simp
  from input_frames_unchanged[OF h, of read_iso read_int read_float]
  have a: "snd (clean_data_obj read_iso read_int (Some 0) [?df]) ! 0 = [?df] ! 0"
    and b: "snd (enrich_data_obj read_float read_int (Some 0) [?df]) ! 0 = [?df] ! 0"
    by blast+
  have a': "snd (clean_data_obj read_iso read_int (Some 0) [?df]) ! 0 = ?df"
    using a by (simp only: nth_Cons_0)
  have b': "snd (enrich_data_obj read_float read_int (Some 0) [?df]) ! 0 = ?df"
    using b by (simp only: nth_Cons_0)
  show ?thesis by (intro conjI h e a' b')
qed

section \<open>Properties of the Writer\<close>

lemma execute_all_spec:
  "execute_all fails n qs c = (ok, c') \<Longrightarrow>
     persisted (db c') = persisted (db c)
   \<and> open_connections (db c') = open_connections (db c)
   \<and> ok = (\<not> list_ex (\<lambda>m. fails (Execute m)) [n..<n + length qs])
   \<and> (\<exists>evs. history (db c') = history (db c) @ evs \<and> list_all quiet evs
          \<and> (ok \<longrightarrow> evs = map Executed qs \<and> working c' = run_stmts qs (working c)))"
proof (induction qs arbitrary: n c)
  case Nil
  then show ?case by (auto simp: run_stmts_def)
next
  case (Cons q qs)
  have up: "[n..<n + length (q # qs)] = n # [Suc n..<Suc n + length qs]"
    by (subst upt_rec) simp
  show ?case
  proof (cases "fails (Execute n)")
    case True
    then have "ok = False" "c' = c\<lparr>db := logged Rejected (db c)\<rparr>"
      using Cons.prems by auto
    then show ?thesis using True unfolding up
      by (auto simp: logged_def quiet_def)
  next
    case False
    then have "execute_all fails (Suc n) qs (execute q c) = (ok, c')"
      using Cons.prems by simp
    from Cons.IH[OF this] obtain evs where
      ih: "persisted (db c') = persisted (db (execute q c))"
          "open_connections (db c') = open_connections (db (execute q c))"
          "ok = (\<not> list_ex (\<lambda>m. fails (Execute m)) [Suc n..<Suc n + length qs])"
          "history (db c') = history (db (execute q c)) @ evs" "list_all quiet evs"
          "ok \<longrightarrow> evs = map Executed qs \<and> working c' = run_stmts qs (working (execute q c))"
      by blast
    have "history (db c') = history (db c) @ (Executed q # evs)"
      using ih(4) by (simp add: execute_def logged_def)
    moreover have "list_all quiet (Executed q # evs)" using ih(5) by (simp add: quiet_def)
    moreover have "ok \<longrightarrow> Executed q # evs = map Executed (q # qs)
                       \<and> working c' = run_stmts (q # qs) (working c)"
      using ih(6) by (simp add: execute_def run_stmts_def)
    moreover have "ok = (\<not> list_ex (\<lambda>m. fails (Execute m)) [n..<n + length (q # qs)])"
      using ih(3) False unfolding up by simp
    ultimately show ?thesis using ih(1,2) by (auto simp: execute_def logged_def)
  qed
qed

lemma handle_failure_spec:
  "handle_failure fails c = (out, d') \<Longrightarrow>
     persisted d' = persisted (db c)
   \<and> open_connections d' = open_connections (db c) - 1
   \<and> (\<exists>evs. history d' = history (db c) @ evs @ [Closed] \<and> list_all quiet evs)
   \<and> (out = Raised) = fails Rollback"
  by (auto simp: handle_failure_def close_def rollback_def logged_def quiet_def split: if_splits)


lemma save_to_database_untyped:
  "astype text_of parse_float df = Inl e \<Longrightarrow>
   save_to_database text_of parse_float fails df d = (Returned, d)"
  by (simp add: save_to_database_def)

lemma save_to_database_no_connection:
  "astype text_of parse_float df = Inr rs \<Longrightarrow> fails Connect \<Longrightarrow>
   save_to_database text_of parse_float fails df d = (Returned, logged Rejected d)"
  by (simp add: save_to_database_def)

lemma save_to_database_committed:
  assumes "astype text_of parse_float df = Inr rs"
    and "all_succeed fails (length (statements rs))"
  shows "save_to_database text_of parse_float fails df d =
           (Returned,
            \<lparr>persisted = run_stmts (statements rs) (persisted d),
             open_connections = open_connections d,
             history = history d @ [Connected] @ map Executed (statements rs) @ [Committed, Closed]\<rparr>)"
proof -
  obtain ok c where ex: "execute_all fails 0 (statements rs) (connect d) = (ok, c)"
    by (cases "execute_all fails 0 (statements rs) (connect d)") auto
  from execute_all_spec[OF ex] assms(2) obtain evs where
    c: "persisted (db c) = persisted (db (connect d))"
       "open_connections (db c) = open_connections (db (connect d))"
       "ok" "history (db c) = history (db (connect d)) @ evs"
       "evs = map Executed (statements rs)"
       "working c = run_stmts (statements rs) (working (connect d))"
    by (auto simp: all_succeed_def)
  have "close (commit c) =
          \<lparr>persisted = run_stmts (statements rs) (persisted d),
           open_connections = open_connections d,
           history = history d @ [Connected] @ map Executed (statements rs) @ [Committed, Closed]\<rparr>"
    using c by (simp add: close_def commit_def connect_def logged_def)
  then show ?thesis using assms ex c(3)
    by (simp add: save_to_database_def all_succeed_def)
qed

lemma save_to_database_connected:
  assumes "astype text_of parse_float df = Inr rs" and "\<not> fails Connect"
  shows "persisted (snd (save_to_database text_of parse_float fails df d)) =
           (if all_succeed fails (length (statements rs))
            then run_stmts (statements rs) (persisted d) else persisted d)
       \<and> open_connections (snd (save_to_database text_of parse_float fails df d)) = open_connections d
       \<and> (\<exists>evs. history (snd (save_to_database text_of parse_float fails df d))
                   = history d @ [Connected] @ evs @ [Closed]
                \<and> Connected \<notin> set evs \<and> Closed \<notin> set evs
                \<and> (\<not> all_succeed fails (length (statements rs)) \<longrightarrow> Committed \<notin> set evs))"
proof (cases "all_succeed fails (length (statements rs))")
  case True
  show ?thesis
    unfolding save_to_database_committed[OF assms(1) True] using True
    by (intro conjI exI[of _ "map Executed (statements rs) @ [Committed]"]) auto
next
  case False
  obtain ok c where ex: "execute_all fails 0 (statements rs) (connect d) = (ok, c)"
    by (cases "execute_all fails 0 (statements rs) (connect d)") auto
  from execute_all_spec[OF ex] obtain evs where
    c: "persisted (db c) = persisted d"
       "open_connections (db c) = Suc (open_connections d)"
       "ok = (\<not> list_ex (\<lambda>m. fails (Execute m)) [0..<length (statements rs)])"
       "history (db c) = history d @ [Connected] @ evs" "list_all quiet evs"
    by (auto simp: connect_def logged_def)
  let ?c = "if ok then c\<lparr>db := logged Rejected (db c)\<rparr> else c"
  have S: "save_to_database text_of parse_float fails df d = handle_failure fails ?c"
    using assms ex False c(3) by (auto simp: save_to_database_def all_succeed_def)
  obtain out d' where hf: "handle_failure fails ?c = (out, d')"
    by (cases "handle_failure fails ?c") auto
  from handle_failure_spec[OF hf] obtain evs' where
    d': "persisted d' = persisted (db ?c)" "open_connections d' = open_connections (db ?c) - 1"
        "history d' = history (db ?c) @ evs' @ [Closed]" "list_all quiet evs'"
    by blast
  let ?evs = "evs @ (if ok then [Rejected] else []) @ evs'"
  have 1: "persisted d' = persisted d" using d'(1) c(1) by (simp add: logged_def)
  have 2: "open_connections d' = open_connections d" using d'(2) c(2) by (simp add: logged_def)
  have 3: "history d' = history d @ [Connected] @ ?evs @ [Closed]"
    using d'(3) c(4) by (simp add: logged_def)
  have 4: "list_all quiet ?evs" using c(5) d'(4) by (simp add: quiet_def)
  then have 5: "Connected \<notin> set ?evs \<and> Closed \<notin> set ?evs \<and> Committed \<notin> set ?evs"
    unfolding list_all_iff quiet_def by blast
  show ?thesis unfolding S hf using False 1 2 3 5
    by (intro conjI exI[of _ ?evs]) simp_all
qed

text \<open>
  C4. Whatever call is rejected, \<^verbatim>\<open>save_to_database\<close> leaves the committed tables as they
  were before the write and commits nothing; when no call is rejected it executes the
  statements of the six steps in order, commits once, after the last fact row, and
  closes. A batch that \<^verbatim>\<open>astype\<close> rejects reaches no connection at all.
\<close>

theorem save_to_database_atomic:
  "case astype text_of parse_float df of
     Inl e \<Rightarrow> save_to_database text_of parse_float fails df d = (Returned, d)
   | Inr rs \<Rightarrow>
       if all_succeed fails (length (statements rs))
       then save_to_database text_of parse_float fails df d =
              (Returned,
               \<lparr>persisted = run_stmts (statements rs) (persisted d),
                open_connections = open_connections d,
                history = history d @ [Connected] @ map Executed (statements rs)
                            @ [Committed, Closed]\<rparr>)
       else persisted (snd (save_to_database text_of parse_float fails df d)) = persisted d
          \<and> (\<exists>evs. history (snd (save_to_database text_of parse_float fails df d)) = history d @ evs
                   \<and> Committed \<notin> set evs)"
proof (cases "astype text_of parse_float df")
  case (Inl e)
  then show ?thesis by (simp add: save_to_database_untyped)
next
  case (Inr rs)
  show ?thesis
  proof (cases "all_succeed fails (length (statements rs))")
    case True
    then show ?thesis using Inr save_to_database_committed[OF Inr True] by simp
  next
    case False
    show ?thesis
    proof (cases "fails Connect")
      case True
      have "history (logged Rejected d) = history d @ [Rejected]" by (simp add: logged_def)
      then show ?thesis using Inr False True
        by (auto simp: save_to_database_no_connection logged_def intro!: exI[of _ "[Rejected]"])
    next
      case nc: False
      from save_to_database_connected[of text_of parse_float df rs fails d] Inr nc False
      obtain evs where
        "persisted (snd (save_to_database text_of parse_float fails df d)) = persisted d"
        "history (snd (save_to_database text_of parse_float fails df d))
           = history d @ [Connected] @ evs @ [Closed]"
        "Connected \<notin> set evs" "Closed \<notin> set evs" "Committed \<notin> set evs"
        by auto
      then show ?thesis using Inr False
        by (auto intro!: exI[of _ "[Connected] @ evs @ [Closed]"])
    qed
  qed
qed

theorem save_to_database_atomic_witness:
  "save_to_database nan_text read_float (failing []) sample_batch fresh_database
     = (Returned,
        \<lparr>persisted =
           \<lparr>customers = [''c1''], products = [(''p1'', ''food'')],
            transaction_types = [''debit''], spend_categories = [''daily''],
            amount_categories = [(''low'', 0, 50), (''medium'', 50, 200), (''high'', 200, 99999999 / 100)],
            transactions =
              [\<lparr>fact_customer_id = ''c1'', fact_product_id = ''p1'',
                fact_transaction_date = ''2023-01-05'', fact_transaction_amount = Fin 30,
                fact_transaction_type_id = Some 0, fact_spend_category_id = Some 0,
                fact_amount_category_id = Some 0\<rparr>]\<rparr>,
         open_connections = 0,
         history =
           [Connected, Executed (InsertCustomer ''c1''), Executed (InsertProduct ''p1'' ''food''),
            Executed (InsertTransactionType ''debit''), Executed (InsertSpendCategory ''daily''),
            Executed (InsertAmountCategory ''low'' 0 50),
            Executed (InsertAmountCategory ''medium'' 50 200),
            Executed (InsertAmountCategory ''high'' 200 (99999999 / 100)),
            Executed (InsertTransaction ''c1'' ''p1'' ''2023-01-05'' (Fin 30) ''debit'' ''daily'' ''low''),
            Committed, Closed]\<rparr>)
   \<and> persisted (snd (save_to_database nan_text read_float (failing [Execute 7]) sample_batch
                        fresh_database)) = empty_store
   \<and> persisted (snd (save_to_database nan_text read_float (failing [Commit]) sample_batch
                        fresh_database)) = empty_store"
proof -
  let ?rs = "[\<lparr>customer_id = ''c1'', product_id = ''p1'', product_category = ''food'',
               transaction_date = ''2023-01-05'', transaction_amount = Fin 30,
               transaction_type = ''debit'', spend_category = ''daily'',
               amount_category = ''low''\<rparr>]"
  have a: "astype nan_text read_float sample_batch = Inr ?rs" by code_simp
  have s1: "all_succeed (failing []) (length (statements ?rs))" by code_simp
  have s2: "\<not> all_succeed (failing [Execute 7]) (length (statements ?rs))" by code_simp
  have s3: "\<not> all_succeed (failing [Commit]) (length (statements ?rs))" by code_simp
  have p: "persisted fresh_database = empty_store" by (simp add: fresh_database_def)
  have t1: "save_to_database nan_text read_float (failing []) sample_batch fresh_database =
      (Returned,
       \<lparr>persisted = run_stmts (statements ?rs) (persisted fresh_database),
        open_connections = open_connections fresh_database,
        history = history fresh_database @ [Connected] @ map Executed (statements ?rs)
                    @ [Committed, Closed]\<rparr>)"
    using save_to_database_atomic[where text_of = nan_text and parse_float = read_float and df = sample_batch and fails = "failing []" and d = fresh_database]
      a s1 by simp
  have v: "\<lparr>persisted = run_stmts (statements ?rs) (persisted fresh_database),
        open_connections = open_connections fresh_database,
        history = history fresh_database @ [Connected] @ map Executed (statements ?rs)
                    @ [Committed, Closed]\<rparr>
     = \<lparr>persisted =
           \<lparr>customers = [''c1''], products = [(''p1'', ''food'')],
            transaction_types = [''debit''], spend_categories = [''daily''],
            amount_categories = [(''low'', 0, 50), (''medium'', 50, 200), (''high'', 200, 99999999 / 100)],
            transactions =
              [\<lparr>fact_customer_id = ''c1'', fact_product_id = ''p1'',
                fact_transaction_date = ''2023-01-05'', fact_transaction_amount = Fin 30,
                fact_transaction_type_id = Some 0, fact_spend_category_id = Some 0,
                fact_amount_category_id = Some 0\<rparr>]\<rparr>,
         open_connections = 0,
         history =
           [Connected, Executed (InsertCustomer ''c1''), Executed (InsertProduct ''p1'' ''food''),
            Executed (InsertTransactionType ''debit''), Executed (InsertSpendCategory ''daily''),
            Executed (InsertAmountCategory ''low'' 0 50),
            Executed (InsertAmountCategory ''medium'' 50 200),
            Executed (InsertAmountCategory ''high'' 200 (99999999 / 100)),
            Executed (InsertTransaction ''c1'' ''p1'' ''2023-01-05'' (Fin 30) ''debit'' ''daily'' ''low''),
            Committed, Closed]\<rparr>"
    by code_simp
  have t2: "persisted (snd (save_to_database nan_text read_float (failing [Execute 7]) sample_batch
                        fresh_database)) = empty_store"
    using save_to_database_atomic[where text_of = nan_text and parse_float = read_float and df = sample_batch and fails = "failing [Execute 7]" and d = fresh_database]
      a s2 p by simp
  have t3: "persisted (snd (save_to_database nan_text read_float (failing [Commit]) sample_batch
                        fresh_database)) = empty_store"
    using save_to_database_atomic[where text_of = nan_text and parse_float = read_float and df = sample_batch and fails = "failing [Commit]" and d = fresh_database]
      a s3 p by simp
  show ?thesis using t1[unfolded v] t2 t3 by (intro conjI)
qed

text \<open>
  C8. On every path the number of open connections after \<^verbatim>\<open>save_to_database\<close> is what it
  was before; once the connection is acquired, the calls of the write are \<open>Connected\<close>,
  then calls that neither open nor close, then \<open>Closed\<close> as the last one: after a commit,
  after a handled failure, and when the rollback itself raises.
\<close>

theorem save_to_database_closes:
  "open_connections (snd (save_to_database text_of parse_float fails df d)) = open_connections d
   \<and> (case astype text_of parse_float df of
        Inl e \<Rightarrow> history (snd (save_to_database text_of parse_float fails df d)) = history d
      | Inr rs \<Rightarrow>
          if fails Connect
          then history (snd (save_to_database text_of parse_float fails df d)) = history d @ [Rejected]
          else \<exists>evs. history (snd (save_to_database text_of parse_float fails df d))
                        = history d @ [Connected] @ evs @ [Closed]
                     \<and> Connected \<notin> set evs \<and> Closed \<notin> set evs)"
proof (cases "astype text_of parse_float df")
  case (Inl e)
  then show ?thesis by (simp add: save_to_database_untyped)
next
  case (Inr rs)
  show ?thesis
  proof (cases "fails Connect")
    case True
    then show ?thesis using Inr by (simp add: save_to_database_no_connection logged_def)
  next
    case False
    from save_to_database_connected[of text_of parse_float df rs fails d] Inr False
    show ?thesis by auto
  qed
qed

theorem save_to_database_closes_witness:
  "open_connections (snd (save_to_database nan_text read_float (failing []) sample_batch
                             fresh_database)) = 0
   \<and> open_connections (snd (save_to_database nan_text read_float (failing [Execute 7]) sample_batch
                             fresh_database)) = 0
   \<and> open_connections (snd (save_to_database nan_text read_float (failing [Execute 7, Rollback])
                             sample_batch fresh_database)) = 0
   \<and> save_to_database nan_text read_float (failing [Execute 7, Rollback]) sample_batch fresh_database
      = (Raised,
         \<lparr>persisted = empty_store, open_connections = 0,
          history =
            [Connected, Executed (InsertCustomer ''c1''), Executed (InsertProduct ''p1'' ''food''),
             Executed (InsertTransactionType ''debit''), Executed (InsertSpendCategory ''daily''),
             Executed (InsertAmountCategory ''low'' 0 50),
             Executed (InsertAmountCategory ''medium'' 50 200),
             Executed (InsertAmountCategory ''high'' 200 (99999999 / 100)),
             Rejected, Rejected, Closed]\<rparr>)"
proof -
  have z: "open_connections fresh_database = 0" by (simp add: fresh_database_def)
  have c1: "open_connections (snd (save_to_database nan_text read_float (failing []) sample_batch
                             fresh_database)) = 0"
    using save_to_database_closes[where text_of = nan_text and parse_float = read_float and df = sample_batch and fails = "failing []" and d = fresh_database]
    by (simp only: z)
  have c2: "open_connections (snd (save_to_database nan_text read_float (failing [Execute 7])
                             sample_batch fresh_database)) = 0"
    using save_to_database_closes[where text_of = nan_text and parse_float = read_float and df = sample_batch and fails = "failing [Execute 7]" and d = fresh_database]
    by (simp only: z)
  have c3: "open_connections (snd (save_to_database nan_text read_float (failing [Execute 7, Rollback])
                             sample_batch fresh_database)) = 0"
    using save_to_database_closes[where text_of = nan_text and parse_float = read_float and df = sample_batch and fails = "failing [Execute 7, Rollback]" and d = fresh_database]
    by (simp only: z)
  have e: "save_to_database nan_text read_float (failing [Execute 7, Rollback]) sample_batch fresh_database
      = (Raised,
         \<lparr>persisted = empty_store, open_connections = 0,
          history =
            [Connected, Executed (InsertCustomer ''c1''), Executed (InsertProduct ''p1'' ''food''),
             Executed (InsertTransactionType ''debit''), Executed (InsertSpendCategory ''daily''),
             Executed (InsertAmountCategory ''low'' 0 50),
             Executed (InsertAmountCategory ''medium'' 50 200),
             Executed (InsertAmountCategory ''high'' 200 (99999999 / 100)),
             Rejected, Rejected, Closed]\<rparr>)"
    by code_simp
  show ?thesis by (intro conjI c1 c2 c3 e)
qed

lemma apply_present: "present q s \<Longrightarrow> apply_stmt q s = s"
  by (cases q) simp_all

lemma present_after: "is_lookup q \<Longrightarrow> present q (apply_stmt q s)"
  by (cases q) simp_all

lemma present_mono: "present q s \<Longrightarrow> present q (apply_stmt q' s)"
  by (cases q; cases q') auto

lemma keys_distinct_apply: "keys_distinct s \<Longrightarrow> keys_distinct (apply_stmt q s)"
  by (cases q) (auto simp: keys_distinct_def)

lemma lookup_keeps_transactions: "is_lookup q \<Longrightarrow> transactions (apply_stmt q s) = transactions s"
  by (cases q) simp_all

lemma run_stmts_Cons: "run_stmts (q # qs) s = run_stmts qs (apply_stmt q s)"
  by (simp add: run_stmts_def)

lemma run_stmts_Nil: "run_stmts [] s = s"
  by (simp add: run_stmts_def)

lemma run_stmts_append: "run_stmts (xs @ ys) s = run_stmts ys (run_stmts xs s)"
  by (simp add: run_stmts_def)

lemma present_run_mono: "present q s \<Longrightarrow> present q (run_stmts qs s)"
  by (induction qs arbitrary: s) (simp_all add: run_stmts_Nil run_stmts_Cons present_mono)

lemma run_present: "list_all (\<lambda>q. present q s) qs \<Longrightarrow> run_stmts qs s = s"
  by (induction qs) (simp_all add: run_stmts_Nil run_stmts_Cons apply_present)

lemma run_makes_present:
  "list_all is_lookup qs \<Longrightarrow> list_all (\<lambda>q. present q (run_stmts qs s)) qs"
proof (induction qs arbitrary: s)
  case Nil
  then show ?case by simp
next
  case (Cons q qs)
  then show ?case
    by (simp add: run_stmts_Cons present_run_mono present_after)
qed

lemma keys_distinct_run: "keys_distinct s \<Longrightarrow> keys_distinct (run_stmts qs s)"
  by (induction qs arbitrary: s) (simp_all add: run_stmts_Nil run_stmts_Cons keys_distinct_apply)

lemma run_lookups_transactions:
  "list_all is_lookup qs \<Longrightarrow> transactions (run_stmts qs s) = transactions s"
  by (induction qs arbitrary: s)
     (simp_all add: run_stmts_Nil run_stmts_Cons lookup_keeps_transactions)

lemma is_lookup_lookup_stmts: "list_all is_lookup (lookup_stmts rs)"
  by (auto simp: lookup_stmts_def list_all_iff)

lemma fact_of_cong: "lookup_tables s = lookup_tables s' \<Longrightarrow> fact_of s = fact_of s'"
proof -
  assume "lookup_tables s = lookup_tables s'"
  then have "transaction_types s = transaction_types s'" "spend_categories s = spend_categories s'"
    "amount_categories s = amount_categories s'"
    unfolding lookup_tables_def by (metis store.select_convs store.surjective store.update_convs)+
  then show ?thesis by (auto simp: fact_of_def fun_eq_iff)
qed

lemma run_facts:
  "run_stmts (map fact_stmt rs) s = s\<lparr>transactions := transactions s @ map (fact_of s) rs\<rparr>"
proof (induction rs arbitrary: s)
  case Nil
  then show ?case by (simp add: run_stmts_Nil)
next
  case (Cons r rs)
  let ?s' = "apply_stmt (fact_stmt r) s"
  have s': "?s' = s\<lparr>transactions := transactions s @ [fact_of s r]\<rparr>"
    by (simp add: fact_stmt_def fact_of_def)
  have "fact_of ?s' = fact_of s" unfolding s' by (rule fact_of_cong) (simp add: lookup_tables_def)
  then show ?case using Cons.IH[of ?s'] by (simp add: run_stmts_Cons s')
qed


lemma collect_length: "collect f xs = Inr ys \<Longrightarrow> length ys = length xs"
  by (induction xs arbitrary: ys) (auto split: sum.splits)

lemma astype_length: "astype text_of parse_float df = Inr rs \<Longrightarrow> length rs = length (rows df)"
  by (auto simp: astype_def split: sum.splits dest: collect_length)

lemma write_once:
  "run_stmts (statements rs) s =
     (run_stmts (lookup_stmts rs) s)
       \<lparr>transactions := transactions s @ map (fact_of (run_stmts (lookup_stmts rs) s)) rs\<rparr>"
  by (simp add: statements_def run_stmts_append run_facts
      run_lookups_transactions[OF is_lookup_lookup_stmts])

lemma write_twice:
  fixes rs s
  defines "s1 \<equiv> run_stmts (lookup_stmts rs) s"
  defines "s2 \<equiv> run_stmts (statements rs) s"
  shows "run_stmts (statements rs) s2 =
           s2\<lparr>transactions := transactions s @ map (fact_of s1) rs @ map (fact_of s1) rs\<rparr>"
    and "lookup_tables (run_stmts (statements rs) s2) = lookup_tables s2"
proof -
  have s2: "s2 = s1\<lparr>transactions := transactions s @ map (fact_of s1) rs\<rparr>"
    unfolding s1_def s2_def by (rule write_once)
  have s2': "s2 = run_stmts (map fact_stmt rs) s1"
    unfolding s1_def s2_def by (simp add: statements_def run_stmts_append)
  have "list_all (\<lambda>q. present q s1) (lookup_stmts rs)"
    unfolding s1_def by (rule run_makes_present[OF is_lookup_lookup_stmts])
  then have "list_all (\<lambda>q. present q s2) (lookup_stmts rs)"
    unfolding s2' by (simp add: list_all_iff present_run_mono)
  then have same: "run_stmts (lookup_stmts rs) s2 = s2" by (rule run_present)
  have "lookup_tables s2 = lookup_tables s1" unfolding s2 by (simp add: lookup_tables_def)
  then have f: "fact_of s2 = fact_of s1" by (rule fact_of_cong)
  have "run_stmts (statements rs) s2 = s2\<lparr>transactions := transactions s2 @ map (fact_of s2) rs\<rparr>"
    using write_once[of rs s2] same by simp
  then show 1: "run_stmts (statements rs) s2 =
           s2\<lparr>transactions := transactions s @ map (fact_of s1) rs @ map (fact_of s1) rs\<rparr>"
    unfolding f by (simp add: s2)
  show "lookup_tables (run_stmts (statements rs) s2) = lookup_tables s2"
    unfolding 1 by (simp add: lookup_tables_def)
qed

text \<open>
  C5. When no call is rejected and the lookup tables hold one row for each key (as
  their primary and unique keys ensure), writing the same batch twice returns twice;
  the second write leaves the five lookup tables exactly as the first left them, with
  one row for each key; and each write appends the same fact rows, one for each record
  of the batch: after the second write they are there twice.
\<close>

theorem save_to_database_twice:
  assumes typed: "astype text_of parse_float df = Inr rs"
    and ok: "all_succeed fails (length (statements rs))"
    and kd: "keys_distinct (persisted d)"
  shows "\<exists>d1 d2 facts.
           save_to_database text_of parse_float fails df d = (Returned, d1)
         \<and> save_to_database text_of parse_float fails df d1 = (Returned, d2)
         \<and> lookup_tables (persisted d2) = lookup_tables (persisted d1)
         \<and> keys_distinct (persisted d1) \<and> keys_distinct (persisted d2)
         \<and> length facts = length (rows df)
         \<and> transactions (persisted d1) = transactions (persisted d) @ facts
         \<and> transactions (persisted d2) = transactions (persisted d) @ facts @ facts"
proof -
  let ?s = "persisted d"
  let ?s1 = "run_stmts (lookup_stmts rs) ?s"
  let ?s2 = "run_stmts (statements rs) ?s"
  let ?h1 = "history d @ [Connected] @ map Executed (statements rs) @ [Committed, Closed]"
  let ?d1 = "\<lparr>persisted = ?s2, open_connections = open_connections d, history = ?h1\<rparr>"
  let ?d2 = "\<lparr>persisted = run_stmts (statements rs) ?s2, open_connections = open_connections d,
              history = ?h1 @ [Connected] @ map Executed (statements rs) @ [Committed, Closed]\<rparr>"
  let ?F = "map (fact_of ?s1) rs"
  have r1: "save_to_database text_of parse_float fails df d = (Returned, ?d1)"
    by (rule save_to_database_committed[OF typed ok])
  have r2: "save_to_database text_of parse_float fails df ?d1 = (Returned, ?d2)"
    using save_to_database_committed[OF typed ok, of ?d1] by simp
  have t1: "transactions ?s2 = transactions ?s @ ?F"
    by (subst write_once) simp
  have t2: "transactions (run_stmts (statements rs) ?s2) = transactions ?s @ ?F @ ?F"
    by (subst write_twice(1)) simp
  have l: "lookup_tables (run_stmts (statements rs) ?s2) = lookup_tables ?s2"
    by (rule write_twice(2))
  have k1: "keys_distinct ?s2" using kd by (rule keys_distinct_run)
  have k2: "keys_distinct (run_stmts (statements rs) ?s2)" using k1 by (rule keys_distinct_run)
  have n: "length ?F = length (rows df)" using astype_length[OF typed] by simp
  show ?thesis
    using r1 r2 l k1 k2 n t1 t2
    by (intro exI[of _ ?d1] exI[of _ ?d2] exI[of _ ?F]) simp
qed


theorem save_to_database_twice_witness:
  "astype nan_text read_float sample_batch
     = Inr [\<lparr>customer_id = ''c1'', product_id = ''p1'', product_category = ''food'',
             transaction_date = ''2023-01-05'', transaction_amount = Fin 30,
             transaction_type = ''debit'', spend_category = ''daily'',
             amount_category = ''low''\<rparr>]
   \<and> all_succeed (failing []) 8
   \<and> keys_distinct (persisted fresh_database)
   \<and> lookup_tables
        (persisted (snd (save_to_database nan_text read_float (failing []) sample_batch
           (snd (save_to_database nan_text read_float (failing []) sample_batch fresh_database)))))
      = lookup_tables
         (persisted (snd (save_to_database nan_text read_float (failing []) sample_batch fresh_database)))
   \<and> keys_distinct
        (persisted (snd (save_to_database nan_text read_float (failing []) sample_batch
           (snd (save_to_database nan_text read_float (failing []) sample_batch fresh_database)))))
   \<and> length (transactions
        (persisted (snd (save_to_database nan_text read_float (failing []) sample_batch fresh_database))))
      = 1
   \<and> length (transactions
        (persisted (snd (save_to_database nan_text read_float (failing []) sample_batch
           (snd (save_to_database nan_text read_float (failing []) sample_batch fresh_database))))))
      = 2"
proof -
  let ?rs = "[\<lparr>customer_id = ''c1'', product_id = ''p1'', product_category = ''food'',
             transaction_date = ''2023-01-05'', transaction_amount = Fin 30,
             transaction_type = ''debit'', spend_category = ''daily'',
             amount_category = ''low''\<rparr>]"
  let ?save = "save_to_database nan_text read_float (failing []) sample_batch"
  have a: "astype nan_text read_float sample_batch = Inr ?rs" by code_simp
  have n: "length (statements ?rs) = 8" by code_simp
  have s8: "all_succeed (failing []) 8" by code_simp
  have s: "all_succeed (failing []) (length (statements ?rs))" unfolding n by (rule s8)
  have k: "keys_distinct (persisted fresh_database)" by code_simp
  have e: "transactions (persisted fresh_database) = []"
    by (simp add: fresh_database_def empty_store_def)
  have r: "length (rows sample_batch) = 1" by (simp add: sample_batch_def)
  from save_to_database_twice[OF a s k]
  obtain d1 d2 facts where
    w: "?save fresh_database = (Returned, d1)" "?save d1 = (Returned, d2)"
       "lookup_tables (persisted d2) = lookup_tables (persisted d1)"
       "keys_distinct (persisted d2)"
       "length facts = length (rows sample_batch)"
       "transactions (persisted d1) = transactions (persisted fresh_database) @ facts"
       "transactions (persisted d2) = transactions (persisted fresh_database) @ facts @ facts"
    by blast
  have d1: "snd (?save fresh_database) = d1" using w(1) by simp
  have d2: "snd (?save d1) = d2" using w(2) by simp
  have l1: "length (transactions (persisted d1)) = 1" using w(5,6) e r by simp
  have l2: "length (transactions (persisted d2)) = 2" using w(5,7) e r by simp
  show ?thesis unfolding d1 d2 by (intro conjI a s8 k w(3) w(4) l1 l2)
qed

section \<open>Properties of the pipeline\<close>

lemma clean_data_absent:
  "clean_data parse_date parse_num None = None"
  "df_empty df \<Longrightarrow> clean_data parse_date parse_num (Some df) = None"
  by (simp_all add: clean_data_def)

lemma enrich_data_absent:
  "enrich_data parse_float parse_num None = Inr None"
  "df_empty df \<Longrightarrow> enrich_data parse_float parse_num (Some df) = Inr None"
  by (simp_all add: enrich_data_def)

lemma enrich_data_nonempty:
  assumes "enrich_data parse_float parse_num input = Inr (Some out)"
  shows "\<not> df_empty out"
proof -
  from assms obtain df where df: "input = Some df" "\<not> df_empty df"
    by (auto simp: enrich_data_def split: option.splits if_splits)
  show ?thesis
  proof (cases "col_pos ''transaction_amount'' (columns df)")
    case None
    then show ?thesis using assms df by (simp add: enrich_data_def)
  next
    case (Some j)
    then show ?thesis using assms df
      by (auto simp: enrich_data_def Let_def merge_totals_def assign_column_def df_empty_def
               coerce_column_def split: option.splits if_splits)
  qed
qed

text \<open>
  C7. \<^verbatim>\<open>clean_data\<close> and \<^verbatim>\<open>enrich_data\<close> return \<^verbatim>\<open>None\<close> on an absent and on an empty
  batch, and \<^verbatim>\<open>enrich_data\<close> never hands an empty batch on. In a run that gets past the
  connection test and in which some stage has nothing to work on, \<^verbatim>\<open>main\<close> returns
  without an exception, the committed tables are as before, and the only call made to
  the database is the opening of the test connection: no statement, no commit.
\<close>

theorem pipeline_stops_without_data:
  assumes "\<not> test_fails" and "no_data parse_date parse_num fetched"
  shows "main parse_date parse_num parse_float text_of test_fails fails fetched d
           = (Returned, db (connect d))
       \<and> persisted (db (connect d)) = persisted d
       \<and> history (db (connect d)) = history d @ [Connected]
       \<and> clean_data parse_date parse_num None = None
       \<and> enrich_data parse_float parse_num None = Inr None
       \<and> (\<forall>df. df_empty df \<longrightarrow>
             clean_data parse_date parse_num (Some df) = None
           \<and> enrich_data parse_float parse_num (Some df) = Inr None)
       \<and> (\<forall>input out. enrich_data parse_float parse_num input = Inr (Some out) \<longrightarrow> \<not> df_empty out)"
proof -
  have M: "main parse_date parse_num parse_float text_of test_fails fails fetched d
           = (Returned, db (connect d))"
  proof (cases fetched)
    case None
    then show ?thesis using assms(1) by (simp add: main_def)
  next
    case (Some raw)
    show ?thesis
    proof (cases "clean_data parse_date parse_num (Some raw)")
      case None
      then show ?thesis using assms(1) Some by (simp add: main_def)
    next
      case (Some cleaned)
      then have "\<not> df_empty raw" by (auto simp: clean_data_def split: if_splits)
      then have "df_empty cleaned" using assms(2) \<open>fetched = Some raw\<close> Some
        by (simp add: no_data_def)
      then have "enrich_data parse_float parse_num (Some cleaned) = Inr None"
        by (rule enrich_data_absent(2))
      then show ?thesis using assms(1) \<open>fetched = Some raw\<close> Some by (simp add: main_def)
    qed
  qed
  have P: "persisted (db (connect d)) = persisted d"
    by (simp add: connect_def logged_def)
  have H: "history (db (connect d)) = history d @ [Connected]"
    by (simp add: connect_def logged_def)
  show ?thesis
    using M P H clean_data_absent enrich_data_absent enrich_data_nonempty
    by blast
qed

theorem pipeline_stops_without_data_witness:
  "\<not> False
   \<and> no_data read_iso read_int (Some \<lparr>columns = [], rows = []\<rparr>)
   \<and> main read_iso read_int read_float nan_text False (failing [])
        (Some \<lparr>columns = [], rows = []\<rparr>) fresh_database
      = (Returned, \<lparr>persisted = empty_store, open_connections = 1, history = [Connected]\<rparr>)
   \<and> no_data read_iso read_int
        (Some \<lparr>columns = [''customer_id'', ''transaction_amount''], rows = [[Str ''c1'', Num (-5)]]\<rparr>)
   \<and> main read_iso read_int read_float nan_text False (failing [])
        (Some \<lparr>columns = [''customer_id'', ''transaction_amount''], rows = [[Str ''c1'', Num (-5)]]\<rparr>)
        fresh_database
      = (Returned, \<lparr>persisted = empty_store, open_connections = 1, history = [Connected]\<rparr>)"
proof -
  let ?e = "Some \<lparr>columns = [], rows = []\<rparr>"
  let ?n = "Some \<lparr>columns = [''customer_id'', ''transaction_amount''], rows = [[Str ''c1'', Num (-5)]]\<rparr>"
  have t: "\<not> False" by simp
  have n1: "no_data read_iso read_int ?e" by code_simp
  have n2: "no_data read_iso read_int ?n" by code_simp
  have c: "db (connect fresh_database)
             = \<lparr>persisted = empty_store, open_connections = 1, history = [Connected]\<rparr>"
    by (simp add: connect_def logged_def fresh_database_def)
  have m1: "main read_iso read_int read_float nan_text False (failing []) ?e fresh_database
      = (Returned, db (connect fresh_database))"
    using pipeline_stops_without_data[OF t n1, where parse_float = read_float and text_of = nan_text
        and fails = "failing []" and d = fresh_database]
    by blast
  have m2: "main read_iso read_int read_float nan_text False (failing []) ?n fresh_database
      = (Returned, db (connect fresh_database))"
    using pipeline_stops_without_data[OF t n2, where parse_float = read_float and text_of = nan_text
        and fails = "failing []" and d = fresh_database]
    by blast
  show ?thesis by (intro conjI t n1 n2 m1[unfolded c] m2[unfolded c])
qed

end
